theory Spec2Isabelle
  imports Main "HOL-Library.Word" "HOL-Library.Sublist"
begin

section \<open>The account table and the account object\<close>

text \<open>
  A row of table \<^verbatim>\<open>EmailUser\<close> as \<^verbatim>\<open>check_db_table\<close> declares it:
  \<^verbatim>\<open>id, email, passwd, is_staff, is_active, ctime\<close>. The integer columns hold SQL
  integers; what the file sees of them goes through the column readers below, which cut
  them to a C \<^verbatim>\<open>int\<close> or a \<^verbatim>\<open>gint64\<close>. C strings are character lists.
\<close>

record EmailUser =
  col_id :: int
  col_email :: string
  col_passwd :: string
  col_is_staff :: int
  col_is_active :: int
  col_ctime :: int

text \<open>
  The \<^verbatim>\<open>CcnetEmailUser\<close> object built by \<^verbatim>\<open>g_object_new\<close> with the properties
  \<^verbatim>\<open>id, email, is_staff, is_active, ctime\<close>: three C \<^verbatim>\<open>int\<close>s (32 bits) and a
  \<^verbatim>\<open>gint64\<close>. It has no password property.
  A \<^verbatim>\<open>CcnetEmailUser*\<close> is a \<open>CcnetEmailUser option\<close> (\<open>None\<close> is \<^verbatim>\<open>NULL\<close>), a
  \<^verbatim>\<open>GList*\<close> of them is a list (\<open>[]\<close> is \<^verbatim>\<open>NULL\<close>, as in GLib).
\<close>

record CcnetEmailUser =
  eu_id :: "32 word"
  eu_email :: string
  eu_is_staff :: "32 word"
  eu_is_active :: "32 word"
  eu_ctime :: "64 word"


section \<open>The statement texts\<close>

text \<open>
  Every statement is a text assembled by \<^verbatim>\<open>snprintf\<close> into a fixed buffer: what does
  not fit is cut off, and the strings are pasted between apostrophes as they are, with no
  escaping. \<open>snprintf n s\<close> is the content of a buffer of \<open>n\<close> bytes after printing the
  text \<open>s\<close>; \<open>show_int\<close> is \<^verbatim>\<open>%d\<close> (and \<^verbatim>\<open>%lld\<close>); \<open>sq s\<close> is \<^verbatim>\<open>'%s'\<close>.
\<close>

abbreviation apos :: char where
  "apos \<equiv> CHR 0x27"

definition snprintf :: "nat \<Rightarrow> string \<Rightarrow> string" where
  "snprintf n s = take (n - 1) s"

definition digit_char :: "nat \<Rightarrow> char" where
  "digit_char d = char_of (48 + d)"

fun show_nat :: "nat \<Rightarrow> string" where
  "show_nat n = (if n < 10 then [digit_char n] else show_nat (n div 10) @ [digit_char (n mod 10)])"

declare show_nat.simps [simp del]

definition show_int :: "int \<Rightarrow> string" where
  "show_int i = (if i < 0 then CHR ''-'' # show_nat (nat (- i)) else show_nat (nat i))"

definition sq :: "string \<Rightarrow> string" where
  "sq s = apos # s @ [apos]"

text \<open>The format strings of the file, one definition each, with the arguments in place.\<close>

definition fmt_insert :: "string \<Rightarrow> string \<Rightarrow> 32 word \<Rightarrow> 32 word \<Rightarrow> 64 word \<Rightarrow> string" where
  "fmt_insert email hashed_passwd is_staff is_active now =
     ''INSERT INTO EmailUser(email, passwd, is_staff, is_active, ctime) VALUES ('' @
     sq email @ '', '' @ sq hashed_passwd @ '', '' @ sq (show_int (sint is_staff)) @ '', '' @
     sq (show_int (sint is_active)) @ '', '' @ show_int (sint now) @ '')''"

definition fmt_delete :: "string \<Rightarrow> string" where
  "fmt_delete email = ''DELETE FROM EmailUser WHERE email='' @ sq email"




definition fmt_select_user_by_id :: "32 word \<Rightarrow> string" where
  "fmt_select_user_by_id ident =
     ''SELECT id, email, is_staff, is_active, ctime FROM EmailUser WHERE id='' @
     sq (show_int (sint ident))"

definition fmt_select_all :: string where
  "fmt_select_all = ''SELECT * FROM EmailUser''"

definition fmt_select_all_limit :: "32 word \<Rightarrow> 32 word \<Rightarrow> string" where
  "fmt_select_all_limit start limit =
     ''SELECT * FROM EmailUser LIMIT '' @ show_int (sint start) @ '', '' @ show_int (sint limit)"

definition fmt_select_count :: string where
  "fmt_select_count = ''SELECT COUNT(*) FROM EmailUser''"

definition fmt_update :: "string \<Rightarrow> 32 word \<Rightarrow> 32 word \<Rightarrow> 32 word \<Rightarrow> string" where
  "fmt_update hashed_passwd is_staff is_active ident =
     ''UPDATE EmailUser SET passwd='' @ sq hashed_passwd @ '', is_staff='' @
     sq (show_int (sint is_staff)) @ '', is_active='' @ sq (show_int (sint is_active)) @
     '' WHERE id='' @ sq (show_int (sint ident))"

section \<open>The directory and the other collaborators\<close>

text \<open>
  An entry of a search result, as far as the file reads it: its distinguished name
  (\<^verbatim>\<open>ldap_get_dn\<close>) and \<^verbatim>\<open>vals[0]\<close>, the first value of its first attribute
  (\<^verbatim>\<open>ldap_first_attribute\<close>, \<^verbatim>\<open>ldap_get_values\<close>). The searches ask for the login
  attribute only and filter on it, so a returned entry carries it with a value.
\<close>

record ldap_entry =
  entry_dn :: string
  entry_val0 :: string

datatype sql_value = SqlInt int | SqlText string

type_synonym CcnetDBRow = "sql_value list"

text \<open>
  What the file consumes from outside, taken as parameters:
  \<^item> \<open>SHA1 p i\<close> is byte \<open>i\<close> of the array \<^verbatim>\<open>unsigned char sha1[20]\<close> that
    \<^verbatim>\<open>SHA1_Init/SHA1_Update/SHA1_Final\<close> leave for the bytes of \<open>p\<close>;
  \<^item> \<open>get_current_time\<close> is the clock read by \<^verbatim>\<open>add_emailuser\<close>;
  \<^item> \<open>ldap_initialize_ok host\<close>: \<^verbatim>\<open>ldap_initialize\<close> and \<^verbatim>\<open>ldap_set_option\<close> both
    succeed;
  \<^item> \<open>ldap_bind_s dn pw\<close>: the simple bind of \<open>dn\<close> with \<open>pw\<close> is accepted;
  \<^item> \<open>ldap_search_s base filter attrs\<close>: the entries found, \<open>None\<close> when the search
    does not return \<^verbatim>\<open>LDAP_SUCCESS\<close>;
  \<^item> \<open>sql_other_rows text rows\<close> and \<open>sql_other_exec text rows\<close>: what the relational
    engine makes, on a table holding \<open>rows\<close>, of a text that is none of the statements of
    section \<open>The relational engine\<close> (a text cut off by the buffer, or changed by an
    apostrophe in a pasted string): the result rows of a query (\<open>None\<close> when it is
    rejected), and the return value and new table of an execution.
\<close>

record env =
  SHA1 :: "string \<Rightarrow> nat \<Rightarrow> 8 word"
  get_current_time :: "64 word"
  ldap_initialize_ok :: "string \<Rightarrow> bool"
  ldap_bind_s :: "string \<Rightarrow> string option \<Rightarrow> bool"
  ldap_search_s :: "string \<Rightarrow> string \<Rightarrow> string list \<Rightarrow> ldap_entry list option"
  sql_other_rows :: "string \<Rightarrow> EmailUser list \<Rightarrow> CcnetDBRow list option"
  sql_other_exec :: "string \<Rightarrow> EmailUser list \<Rightarrow> int \<times> EmailUser list"

text \<open>
  The fields of \<^verbatim>\<open>CcnetUserManager\<close> the file reads, as
  \<^verbatim>\<open>try_load_ldap_settings\<close> sets them. \<open>use_ldap\<close> is false as well when the file is
  compiled without \<^verbatim>\<open>HAVE_LDAP\<close>. \<open>user_dn\<close> and \<open>password\<close> may be \<^verbatim>\<open>NULL\<close>
  (anonymous bind).
\<close>

record CcnetUserManager =
  use_ldap :: bool
  ldap_host :: string
  base :: string
  user_dn :: "string option"
  password :: "string option"
  login_attr :: string

section \<open>The state: the store behind \<^verbatim>\<open>priv->db\<close> and the calls made\<close>

datatype event =
    DB_STMT string
  | LDAP_INIT string
  | LDAP_BIND string
  | LDAP_SEARCH string string
  | LDAP_UNBIND

text \<open>
  \<open>tbl\<close> is the table in storage order, \<open>next_id\<close> the next value of the
  auto-incrementing key, \<open>db_online\<close> whether the engine executes statements at all, and
  \<open>calls\<close> the log of every statement text handed to the engine and every directory
  call, in order.
\<close>

record world =
  tbl :: "EmailUser list"
  next_id :: int
  db_online :: bool
  calls :: "event list"

definition emit :: "event \<Rightarrow> world \<Rightarrow> world" where
  "emit e w = w\<lparr>calls := calls w @ [e]\<rparr>"


section \<open>The relational engine\<close>

text \<open>
  Modelled from the spec: the engine behind \<^verbatim>\<open>ccnet-db.h\<close> is not part of the file.
  The spec gives its interface (execute, queryScalarInt64, queryRows with a row callback,
  each able to fail) and the logical schema: one table, \<open>id\<close> an auto-incrementing key,
  \<open>email\<close> under a uniqueness constraint, rows listed in storage order, pages by offset.
  The engine is handed a text. The statements it is known to read are the ones below, in
  the exact wording of the file's format strings, a string literal running from one
  apostrophe to the next; any other text goes to \<open>sql_other_rows\<close> and
  \<open>sql_other_exec\<close>.
\<close>

datatype sql_where =
    WHERE_email string
  | WHERE_email_passwd string string
  | WHERE_id int
  | WHERE_none

datatype sql_columns =
    COLS_star
  | COLS_id_email_staff_active_ctime
  | COLS_email
  | COLS_count_star

datatype sql =
    SQL_INSERT string string int int int
  | SQL_DELETE sql_where
  | SQL_SELECT sql_columns sql_where "(int \<times> int) option"
  | SQL_UPDATE string int int sql_where

text \<open>Modelled from the spec: reading a decimal number.\<close>

definition is_digit :: "char \<Rightarrow> bool" where
  "is_digit c = (48 \<le> (of_char c :: nat) \<and> (of_char c :: nat) \<le> 57)"

text \<open>Modelled from the spec: a run of digits read as a natural number.\<close>

definition read_nat :: "string \<Rightarrow> nat option" where
  "read_nat s =
     (if s \<noteq> [] \<and> list_all is_digit s
      then Some (foldl (\<lambda>a c. 10 * a + (of_char c - 48)) 0 s) else None)"

text \<open>Modelled from the spec: a decimal number with an optional minus sign.\<close>

definition read_int :: "string \<Rightarrow> int option" where
  "read_int s =
     (if s \<noteq> [] \<and> hd s = CHR ''-'' then map_option (\<lambda>n. - int n) (read_nat (tl s))
      else map_option int (read_nat s))"

text \<open>Modelled from the spec: \<open>strip p s\<close> takes the fixed wording \<open>p\<close> off the text.\<close>

fun strip :: "string \<Rightarrow> string \<Rightarrow> string option" where
  "strip [] s = Some s"
| "strip (c # p) [] = None"
| "strip (c # p) (d # s) = (if c = d then strip p s else None)"

text \<open>
  Modelled from the spec: a string literal after its opening apostrophe, up to the next
  apostrophe; the value and the text after the closing apostrophe.
\<close>

definition sql_literal :: "string \<Rightarrow> (string \<times> string) option" where
  "sql_literal s =
     (case dropWhile (\<lambda>c. c \<noteq> apos) s of
        [] \<Rightarrow> None
      | c # rest \<Rightarrow> Some (takeWhile (\<lambda>c. c \<noteq> apos) s, rest))"

text \<open>Modelled from the spec: a number written as a literal, \<^verbatim>\<open>'%d'\<close>.\<close>

definition sql_number :: "string \<Rightarrow> (int \<times> string) option" where
  "sql_number s =
     Option.bind (sql_literal s) (\<lambda>(lit, rest). map_option (\<lambda>i. (i, rest)) (read_int lit))"

text \<open>Modelled from the spec: the \<^verbatim>\<open>WHERE\<close> clauses of the file, to the end of the text.\<close>

definition parse_where :: "string \<Rightarrow> sql_where option" where
  "parse_where s =
     (if s = [] then Some WHERE_none
      else case strip ('' WHERE email='' @ [apos]) s of
             Some r \<Rightarrow>
               Option.bind (sql_literal r) (\<lambda>(e, r2).
                 if r2 = [] then Some (WHERE_email e)
                 else Option.bind (strip ('' AND passwd='' @ [apos]) r2) (\<lambda>r3.
                      Option.bind (sql_literal r3) (\<lambda>(p, r4).
                        if r4 = [] then Some (WHERE_email_passwd e p) else None)))
           | None \<Rightarrow>
               Option.bind (strip ('' WHERE id='' @ [apos]) s) (\<lambda>r.
               Option.bind (sql_number r) (\<lambda>(i, r2).
                 if r2 = [] then Some (WHERE_id i) else None)))"

text \<open>Modelled from the spec: \<^verbatim>\<open>LIMIT %d, %d\<close>, to the end of the text.\<close>

definition parse_limit :: "string \<Rightarrow> (int \<times> int) option" where
  "parse_limit s =
     Option.bind (strip '' LIMIT '' s) (\<lambda>r.
     Option.bind (read_int (takeWhile (\<lambda>c. c \<noteq> CHR '','') r)) (\<lambda>a.
     Option.bind (strip '', '' (dropWhile (\<lambda>c. c \<noteq> CHR '','') r)) (\<lambda>r2.
     map_option (\<lambda>b. (a, b)) (read_int r2))))"

text \<open>Modelled from the spec: what follows \<^verbatim>\<open>FROM EmailUser\<close> in a query.\<close>

definition parse_tail :: "sql_columns \<Rightarrow> string \<Rightarrow> sql option" where
  "parse_tail cols s =
     (case parse_limit s of
        Some lim \<Rightarrow> Some (SQL_SELECT cols WHERE_none (Some lim))
      | None \<Rightarrow> map_option (\<lambda>wh. SQL_SELECT cols wh None) (parse_where s))"

text \<open>Modelled from the spec: the select lists of the file.\<close>

definition parse_select :: "string \<Rightarrow> sql option" where
  "parse_select s =
     (case strip ''id, email, is_staff, is_active, ctime FROM EmailUser'' s of
        Some r \<Rightarrow> parse_tail COLS_id_email_staff_active_ctime r
      | None \<Rightarrow>
     (case strip ''email FROM EmailUser'' s of
        Some r \<Rightarrow> parse_tail COLS_email r
      | None \<Rightarrow>
     (case strip ''* FROM EmailUser'' s of
        Some r \<Rightarrow> parse_tail COLS_star r
      | None \<Rightarrow>
     (case strip ''COUNT(*) FROM EmailUser'' s of
        Some r \<Rightarrow> parse_tail COLS_count_star r
      | None \<Rightarrow> None))))"

text \<open>Modelled from the spec: the values of the \<^verbatim>\<open>INSERT\<close>, after the opening bracket.\<close>

definition parse_insert :: "string \<Rightarrow> sql option" where
  "parse_insert s =
     Option.bind (strip [apos] s) (\<lambda>r0.
     Option.bind (sql_literal r0) (\<lambda>(e, r1).
     Option.bind (strip ('', '' @ [apos]) r1) (\<lambda>r2.
     Option.bind (sql_literal r2) (\<lambda>(p, r3).
     Option.bind (strip ('', '' @ [apos]) r3) (\<lambda>r4.
     Option.bind (sql_number r4) (\<lambda>(st, r5).
     Option.bind (strip ('', '' @ [apos]) r5) (\<lambda>r6.
     Option.bind (sql_number r6) (\<lambda>(ac, r7).
     Option.bind (strip '', '' r7) (\<lambda>r8.
       if r8 \<noteq> [] \<and> last r8 = CHR '')''
       then map_option (\<lambda>ct. SQL_INSERT e p st ac ct) (read_int (butlast r8))
       else None)))))))))"

text \<open>Modelled from the spec: the assignments of the \<^verbatim>\<open>UPDATE\<close>, after \<^verbatim>\<open>passwd='\<close>.\<close>

definition parse_update :: "string \<Rightarrow> sql option" where
  "parse_update s =
     Option.bind (sql_literal s) (\<lambda>(p, r1).
     Option.bind (strip ('', is_staff='' @ [apos]) r1) (\<lambda>r2.
     Option.bind (sql_number r2) (\<lambda>(st, r3).
     Option.bind (strip ('', is_active='' @ [apos]) r3) (\<lambda>r4.
     Option.bind (sql_number r4) (\<lambda>(ac, r5).
     Option.bind (strip ('' WHERE id='' @ [apos]) r5) (\<lambda>r6.
     Option.bind (sql_number r6) (\<lambda>(i, r7).
       if r7 = [] then Some (SQL_UPDATE p st ac (WHERE_id i)) else None)))))))"

text \<open>Modelled from the spec: the statements the engine is known to read.\<close>

definition sql_parse :: "string \<Rightarrow> sql option" where
  "sql_parse s =
     (case strip ''SELECT '' s of
        Some r \<Rightarrow> parse_select r
      | None \<Rightarrow>
     (case strip ''INSERT INTO EmailUser(email, passwd, is_staff, is_active, ctime) VALUES ('' s of
        Some r \<Rightarrow> parse_insert r
      | None \<Rightarrow>
     (case strip ''DELETE FROM EmailUser'' s of
        Some r \<Rightarrow> map_option SQL_DELETE (parse_where r)
      | None \<Rightarrow>
     (case strip (''UPDATE EmailUser SET passwd='' @ [apos]) s of
        Some r \<Rightarrow> parse_update r
      | None \<Rightarrow> None))))"

text \<open>Modelled from the spec: the engine's reading of the \<^verbatim>\<open>WHERE\<close> clauses, equality on the named columns.\<close>

fun where_holds :: "sql_where \<Rightarrow> EmailUser \<Rightarrow> bool" where
  "where_holds (WHERE_email e) r = (col_email r = e)"
| "where_holds (WHERE_email_passwd e p) r = (col_email r = e \<and> col_passwd r = p)"
| "where_holds (WHERE_id i) r = (col_id r = i)"
| "where_holds WHERE_none r = True"

text \<open>Modelled from the spec: the columns of a result row, in the order of the select list; \<^verbatim>\<open>*\<close> is the six columns in schema order.\<close>

fun select_columns :: "sql_columns \<Rightarrow> EmailUser \<Rightarrow> CcnetDBRow" where
  "select_columns COLS_star r =
     [SqlInt (col_id r), SqlText (col_email r), SqlText (col_passwd r),
      SqlInt (col_is_staff r), SqlInt (col_is_active r), SqlInt (col_ctime r)]"
| "select_columns COLS_id_email_staff_active_ctime r =
     [SqlInt (col_id r), SqlText (col_email r),
      SqlInt (col_is_staff r), SqlInt (col_is_active r), SqlInt (col_ctime r)]"
| "select_columns COLS_email r = [SqlText (col_email r)]"
| "select_columns COLS_count_star r = []"

text \<open>
  Modelled from the spec: \<^verbatim>\<open>LIMIT start, limit\<close>, the offset-based page. The spec
  leaves a negative offset or limit open; here, as in SQLite (the engine of
  \<^verbatim>\<open>open_sqlite_db\<close>), a negative offset counts as 0 and a negative limit as no limit.
\<close>

fun limit_rows :: "(int \<times> int) option \<Rightarrow> 'a list \<Rightarrow> 'a list" where
  "limit_rows None rs = rs"
| "limit_rows (Some (start, limit)) rs =
     (if limit < 0 then drop (nat start) rs else take (nat limit) (drop (nat start) rs))"

text \<open>Modelled from the spec: the rows a query returns on a table.\<close>

definition select_rows ::
  "sql_columns \<Rightarrow> sql_where \<Rightarrow> (int \<times> int) option \<Rightarrow> EmailUser list \<Rightarrow> CcnetDBRow list" where
  "select_rows cols wh lim rows =
     (if cols = COLS_count_star then [[SqlInt (int (length (filter (where_holds wh) rows)))]]
      else map (select_columns cols) (limit_rows lim (filter (where_holds wh) rows)))"

text \<open>
  Modelled from the spec: the rows the engine returns for a text, \<open>None\<close> when the
  engine is down, when the text is a statement that is not a query, or when the engine
  rejects it.
\<close>

definition result_set :: "env \<Rightarrow> world \<Rightarrow> string \<Rightarrow> CcnetDBRow list option" where
  "result_set E w text =
     (if \<not> db_online w then None
      else case sql_parse text of
             None \<Rightarrow> sql_other_rows E text (tbl w)
           | Some stmt \<Rightarrow>
               (case stmt of
                  SQL_SELECT cols wh lim \<Rightarrow> Some (select_rows cols wh lim (tbl w))
                | _ \<Rightarrow> None))"

text \<open>
  Modelled from the spec: the column readers of \<^verbatim>\<open>ccnet-db.h\<close>. The 32-bit reader
  returns a C \<^verbatim>\<open>int\<close>, the low 32 bits of the column's integer, the 64-bit reader a
  \<^verbatim>\<open>gint64\<close>. The callbacks of the file read columns that exist and have the type
  asked for.
\<close>

definition ccnet_db_row_get_column_int :: "CcnetDBRow \<Rightarrow> nat \<Rightarrow> 32 word" where
  "ccnet_db_row_get_column_int row i =
     (if i < length row then (case row ! i of SqlInt n \<Rightarrow> word_of_int n | SqlText s \<Rightarrow> 0) else 0)"

text \<open>Modelled from the spec: the 64-bit column reader.\<close>

definition ccnet_db_row_get_column_int64 :: "CcnetDBRow \<Rightarrow> nat \<Rightarrow> 64 word" where
  "ccnet_db_row_get_column_int64 row i =
     (if i < length row then (case row ! i of SqlInt n \<Rightarrow> word_of_int n | SqlText s \<Rightarrow> 0) else 0)"

text \<open>Modelled from the spec: the text column reader.\<close>

definition ccnet_db_row_get_column_text :: "CcnetDBRow \<Rightarrow> nat \<Rightarrow> string" where
  "ccnet_db_row_get_column_text row i =
     (if i < length row then (case row ! i of SqlText s \<Rightarrow> s | SqlInt n \<Rightarrow> []) else [])"

text \<open>
  Modelled from the spec: the execution of a statement, 0 when it is executed, \<open>-1\<close>
  when it fails. An insert fails on an email already in the table.
\<close>

fun exec_stmt :: "sql \<Rightarrow> world \<Rightarrow> int \<times> world" where
  "exec_stmt (SQL_INSERT e p s a c) w =
     (if e \<in> set (map col_email (tbl w)) then (- 1, w)
      else (0, w\<lparr>tbl := tbl w @ [\<lparr>col_id = next_id w, col_email = e, col_passwd = p,
                                    col_is_staff = s, col_is_active = a, col_ctime = c\<rparr>],
                  next_id := next_id w + 1\<rparr>))"
| "exec_stmt (SQL_DELETE wh) w =
     (0, w\<lparr>tbl := filter (\<lambda>r. \<not> where_holds wh r) (tbl w)\<rparr>)"
| "exec_stmt (SQL_UPDATE p s a wh) w =
     (0, w\<lparr>tbl := map (\<lambda>r. if where_holds wh r
                              then r\<lparr>col_passwd := p, col_is_staff := s, col_is_active := a\<rparr>
                              else r) (tbl w)\<rparr>)"
| "exec_stmt (SQL_SELECT cols wh lim) w = (0, w)"

text \<open>
  Modelled from the spec: \<^verbatim>\<open>ccnet_db_query\<close> (execute) hands the text to the engine;
  an engine that is down fails every statement.
\<close>

definition ccnet_db_query :: "env \<Rightarrow> string \<Rightarrow> world \<Rightarrow> int \<times> world" where
  "ccnet_db_query E text w =
     (let w1 = emit (DB_STMT text) w
      in if \<not> db_online w1 then (- 1, w1)
         else case sql_parse text of
                Some stmt \<Rightarrow> exec_stmt stmt w1
              | None \<Rightarrow>
                  (case sql_other_exec E text (tbl w1) of
                     (ret, rows) \<Rightarrow> (ret, w1\<lparr>tbl := rows\<rparr>)))"

text \<open>
  Modelled from the spec: the loop of \<^verbatim>\<open>ccnet_db_foreach_selected_row\<close> (queryRows),
  whose callback is run on each row of the result until it returns \<^verbatim>\<open>FALSE\<close>; the
  value is the number of rows it was run on.
\<close>

fun foreach_row ::
  "(CcnetDBRow \<Rightarrow> 'a \<Rightarrow> bool \<times> 'a) \<Rightarrow> CcnetDBRow list \<Rightarrow> int \<Rightarrow> 'a \<Rightarrow> int \<times> 'a" where
  "foreach_row callback [] n_rows data = (n_rows, data)"
| "foreach_row callback (row # rest) n_rows data =
     (case callback row data of
        (True, data') \<Rightarrow> foreach_row callback rest (n_rows + 1) data'
      | (False, data') \<Rightarrow> (n_rows + 1, data'))"

text \<open>
  Modelled from the spec: \<^verbatim>\<open>ccnet_db_foreach_selected_row\<close> on a text, over the rows
  of its result; \<open>-1\<close> when the query fails.
\<close>

definition ccnet_db_foreach_selected_row ::
  "env \<Rightarrow> string \<Rightarrow> (CcnetDBRow \<Rightarrow> 'a \<Rightarrow> bool \<times> 'a) \<Rightarrow> 'a \<Rightarrow> world \<Rightarrow> (int \<times> 'a) \<times> world" where
  "ccnet_db_foreach_selected_row E text callback data w =
     (let w1 = emit (DB_STMT text) w
      in case result_set E w1 text of
           None \<Rightarrow> ((- 1, data), w1)
         | Some rs \<Rightarrow> (foreach_row callback rs 0 data, w1))"


text \<open>
  Modelled from the spec: \<^verbatim>\<open>ccnet_db_get_int64\<close> (queryScalarInt64), the first
  column of the first row as a \<^verbatim>\<open>gint64\<close>, \<open>-1\<close> when there is none.
\<close>

definition ccnet_db_get_int64 :: "env \<Rightarrow> string \<Rightarrow> world \<Rightarrow> 64 word \<times> world" where
  "ccnet_db_get_int64 E text w =
     (let w1 = emit (DB_STMT text) w
      in case result_set E w1 text of
           Some ((SqlInt n # cs) # rs) \<Rightarrow> (word_of_int n, w1)
         | _ \<Rightarrow> (- 1, w1))"

section \<open>The credential hasher\<close>

text \<open>
  Modelled from the spec: \<^verbatim>\<open>rawdata_to_hex\<close> (\<^verbatim>\<open>utils.h\<close>) is not part of the file.
  The spec has the stored form as the hex digest, two lower-case hex characters for each
  of the 20 bytes.
\<close>

text \<open>Modelled from the spec: the lower-case hex character of a nibble.\<close>

definition hex_digit :: "nat \<Rightarrow> char" where
  "hex_digit n = ''0123456789abcdef'' ! (n mod 16)"

text \<open>Modelled from the spec: \<^verbatim>\<open>rawdata_to_hex\<close>, the bytes \<open>0 ..< n_bytes\<close> of the array, high nibble first.\<close>

definition rawdata_to_hex :: "(nat \<Rightarrow> 8 word) \<Rightarrow> nat \<Rightarrow> string" where
  "rawdata_to_hex rawdata n_bytes =
     concat (map (\<lambda>i. [hex_digit (unat (rawdata i) div 16), hex_digit (unat (rawdata i) mod 16)])
                 [0 ..< n_bytes])"

definition hash_password :: "env \<Rightarrow> string \<Rightarrow> string" where
  "hash_password E passwd = rawdata_to_hex (SHA1 E passwd) 20"

section \<open>The directory adapter\<close>

text \<open>
  \<^verbatim>\<open>ldap_init_and_bind\<close>: \<open>True\<close> is a live handle, \<open>False\<close> is \<^verbatim>\<open>NULL\<close>. With
  no \<open>user_dn\<close> no bind is made. A rejected bind releases the handle.
\<close>

definition ldap_init_and_bind ::
  "env \<Rightarrow> string \<Rightarrow> string option \<Rightarrow> string option \<Rightarrow> world \<Rightarrow> bool \<times> world" where
  "ldap_init_and_bind E host dn pw w =
     (let w1 = emit (LDAP_INIT host) w
      in if \<not> ldap_initialize_ok E host then (False, w1)
         else case dn of
                None \<Rightarrow> (True, w1)
              | Some d \<Rightarrow>
                  (let w2 = emit (LDAP_BIND d) w1
                   in if ldap_bind_s E d pw then (True, w2)
                      else (False, emit LDAP_UNBIND w2)))"

definition ldap_filter :: "CcnetUserManager \<Rightarrow> string \<Rightarrow> string" where
  "ldap_filter manager uid = ''('' @ login_attr manager @ ''='' @ uid @ '')''"

definition ldap_verify_user_password ::
  "env \<Rightarrow> CcnetUserManager \<Rightarrow> string \<Rightarrow> string \<Rightarrow> world \<Rightarrow> int \<times> world" where
  "ldap_verify_user_password E manager uid passwd w =
     (case ldap_init_and_bind E (ldap_host manager) (user_dn manager) (password manager) w of
        (False, w1) \<Rightarrow> (- 1, w1)
      | (True, w1) \<Rightarrow>
          (let filter_str = ldap_filter manager uid;
               w2 = emit (LDAP_SEARCH (base manager) filter_str) w1
           in case ldap_search_s E (base manager) filter_str [login_attr manager] of
                None \<Rightarrow> (- 1, emit LDAP_UNBIND w2)
              | Some [] \<Rightarrow> (- 1, emit LDAP_UNBIND w2)
              | Some (entry # others) \<Rightarrow>
                  (case ldap_init_and_bind E (ldap_host manager) (Some (entry_dn entry))
                          (Some passwd) (emit LDAP_UNBIND w2) of
                     (False, w3) \<Rightarrow> (- 1, w3)
                   | (True, w3) \<Rightarrow> (0, emit LDAP_UNBIND w3))))"

text \<open>The loop of \<^verbatim>\<open>ldap_list_users\<close> over the entries: each user is prepended.\<close>

fun ldap_entries_loop :: "ldap_entry list \<Rightarrow> CcnetEmailUser list \<Rightarrow> CcnetEmailUser list" where
  "ldap_entries_loop [] ret = ret"
| "ldap_entries_loop (entry # rest) ret =
     ldap_entries_loop rest
       (\<lparr>eu_id = 0, eu_email = entry_val0 entry, eu_is_staff = 0, eu_is_active = 1,
         eu_ctime = 0\<rparr> # ret)"

definition ldap_list_users ::
  "env \<Rightarrow> CcnetUserManager \<Rightarrow> string \<Rightarrow> world \<Rightarrow> CcnetEmailUser list \<times> world" where
  "ldap_list_users E manager uid w =
     (case ldap_init_and_bind E (ldap_host manager) (user_dn manager) (password manager) w of
        (False, w1) \<Rightarrow> ([], w1)
      | (True, w1) \<Rightarrow>
          (let filter_str = ldap_filter manager uid;
               w2 = emit (LDAP_SEARCH (base manager) filter_str) w1
           in case ldap_search_s E (base manager) filter_str [login_attr manager] of
                None \<Rightarrow> ([], emit LDAP_UNBIND w2)
              | Some entries \<Rightarrow> (ldap_entries_loop entries [], emit LDAP_UNBIND w2)))"

definition ldap_count_users ::
  "env \<Rightarrow> CcnetUserManager \<Rightarrow> string \<Rightarrow> world \<Rightarrow> int \<times> world" where
  "ldap_count_users E manager uid w =
     (case ldap_init_and_bind E (ldap_host manager) (user_dn manager) (password manager) w of
        (False, w1) \<Rightarrow> (- 1, w1)
      | (True, w1) \<Rightarrow>
          (let filter_str = ldap_filter manager uid;
               w2 = emit (LDAP_SEARCH (base manager) filter_str) w1
           in case ldap_search_s E (base manager) filter_str [login_attr manager] of
                None \<Rightarrow> (- 1, emit LDAP_UNBIND w2)
              | Some entries \<Rightarrow> (int (length entries), emit LDAP_UNBIND w2)))"

section \<open>The account operations\<close>

definition ccnet_user_manager_add_emailuser ::
  "env \<Rightarrow> CcnetUserManager \<Rightarrow> string \<Rightarrow> string \<Rightarrow> 32 word \<Rightarrow> 32 word \<Rightarrow> world \<Rightarrow> int \<times> world" where
  "ccnet_user_manager_add_emailuser E manager email passwd is_staff is_active w =
     (let now = get_current_time E
      in if use_ldap manager then (0, w)
         else (let hashed_passwd = hash_password E passwd;
                   sql = snprintf 512 (fmt_insert email hashed_passwd is_staff is_active now)
               in ccnet_db_query E sql w))"

definition ccnet_user_manager_remove_emailuser ::
  "env \<Rightarrow> CcnetUserManager \<Rightarrow> string \<Rightarrow> world \<Rightarrow> int \<times> world" where
  "ccnet_user_manager_remove_emailuser E manager email w =
     (if use_ldap manager then (0, w)
      else ccnet_db_query E (snprintf 512 (fmt_delete email)) w)"

definition get_emailuser_cb :: "CcnetDBRow \<Rightarrow> CcnetEmailUser option \<Rightarrow> bool \<times> CcnetEmailUser option" where
  "get_emailuser_cb row p_emailuser =
     (False, Some \<lparr>eu_id = ccnet_db_row_get_column_int row 0,
                   eu_email = ccnet_db_row_get_column_text row 1,
                   eu_is_staff = ccnet_db_row_get_column_int row 2,
                   eu_is_active = ccnet_db_row_get_column_int row 3,
                   eu_ctime = ccnet_db_row_get_column_int64 row 4\<rparr>)"



definition ccnet_user_manager_get_emailuser_by_id ::
  "env \<Rightarrow> CcnetUserManager \<Rightarrow> 32 word \<Rightarrow> world \<Rightarrow> CcnetEmailUser option \<times> world" where
  "ccnet_user_manager_get_emailuser_by_id E manager ident w =
     (if use_ldap manager then (None, w)
      else
        (let sql = snprintf 512 (fmt_select_user_by_id ident)
         in case ccnet_db_foreach_selected_row E sql get_emailuser_cb None w of
              ((n, emailuser), w1) \<Rightarrow> if n < 0 then (None, w1) else (emailuser, w1)))"

definition get_emailusers_cb :: "CcnetDBRow \<Rightarrow> CcnetEmailUser list \<Rightarrow> bool \<times> CcnetEmailUser list" where
  "get_emailusers_cb row plist =
     (True, \<lparr>eu_id = ccnet_db_row_get_column_int row 0,
             eu_email = ccnet_db_row_get_column_text row 1,
             eu_is_staff = ccnet_db_row_get_column_int row 3,
             eu_is_active = ccnet_db_row_get_column_int row 4,
             eu_ctime = ccnet_db_row_get_column_int64 row 5\<rparr> # plist)"

definition ccnet_user_manager_get_emailusers ::
  "env \<Rightarrow> CcnetUserManager \<Rightarrow> 32 word \<Rightarrow> 32 word \<Rightarrow> world \<Rightarrow> CcnetEmailUser list \<times> world" where
  "ccnet_user_manager_get_emailusers E manager start limit w =
     (if use_ldap manager then ldap_list_users E manager ''*'' w
      else
        (let sql = (if start = - 1 \<and> limit = - 1
                    then snprintf 256 fmt_select_all
                    else snprintf 256 (fmt_select_all_limit start limit))
         in case ccnet_db_foreach_selected_row E sql get_emailusers_cb [] w of
              ((n, ret), w1) \<Rightarrow> if n < 0 then ([], w1) else (rev ret, w1)))"

definition ccnet_user_manager_count_emailusers ::
  "env \<Rightarrow> CcnetUserManager \<Rightarrow> world \<Rightarrow> 64 word \<times> world" where
  "ccnet_user_manager_count_emailusers E manager w =
     (if use_ldap manager then
        (case ldap_count_users E manager ''*'' w of (count, w1) \<Rightarrow> (word_of_int count, w1))
      else ccnet_db_get_int64 E (snprintf 512 fmt_select_count) w)"

definition ccnet_user_manager_update_emailuser ::
  "env \<Rightarrow> CcnetUserManager \<Rightarrow> 32 word \<Rightarrow> string \<Rightarrow> 32 word \<Rightarrow> 32 word \<Rightarrow> world \<Rightarrow> int \<times> world" where
  "ccnet_user_manager_update_emailuser E manager ident passwd is_staff is_active w =
     (if \<not> use_ldap manager \<or> is_staff \<noteq> 0 then
        (let hashed_passwd = hash_password E passwd;
             sql = snprintf 512 (fmt_update hashed_passwd is_staff is_active ident)
         in ccnet_db_query E sql w)
      else (0, w))"

section \<open>Notions used to state the properties\<close>

text \<open>
  The object \<^verbatim>\<open>get_emailuser_cb\<close> and \<^verbatim>\<open>get_emailusers_cb\<close> build for a row: the
  id and the two flags as the 32-bit reader returns them, the creation time as the 64-bit
  reader does.
\<close>

definition account_of_row :: "EmailUser \<Rightarrow> CcnetEmailUser" where
  "account_of_row r =
     \<lparr>eu_id = word_of_int (col_id r), eu_email = col_email r,
      eu_is_staff = word_of_int (col_is_staff r), eu_is_active = word_of_int (col_is_active r),
      eu_ctime = word_of_int (col_ctime r)\<rparr>"

text \<open>The object the loop of \<^verbatim>\<open>ldap_list_users\<close> builds for a directory entry.\<close>

definition account_of_entry :: "ldap_entry \<Rightarrow> CcnetEmailUser" where
  "account_of_entry e = \<lparr>eu_id = 0, eu_email = entry_val0 e, eu_is_staff = 0,
                          eu_is_active = 1, eu_ctime = 0\<rparr>"

text \<open>
  The bind with the configured service identity (anonymous without \<open>user_dn\<close>) that
  opens every directory operation succeeds.
\<close>

definition service_bind_ok :: "env \<Rightarrow> CcnetUserManager \<Rightarrow> bool" where
  "service_bind_ok E manager =
     (ldap_initialize_ok E (ldap_host manager) \<and>
      (case user_dn manager of None \<Rightarrow> True | Some d \<Rightarrow> ldap_bind_s E d (password manager)))"

section \<open>A concrete configuration\<close>

text \<open>
  An engine that, as SQLite does, ends a statement at \<^verbatim>\<open>--\<close> outside a literal, and
  rejects every other text that is none of the known statements: \<open>cut_comment\<close> drops
  the comment, \<open>rstrip\<close> the blanks before it.
\<close>

fun cut_comment :: "bool \<Rightarrow> string \<Rightarrow> string" where
  "cut_comment in_literal [] = []"
| "cut_comment in_literal [c] = [c]"
| "cut_comment in_literal (c # d # s) =
     (if \<not> in_literal \<and> c = CHR ''-'' \<and> d = CHR ''-'' then []
      else c # cut_comment (if c = apos then \<not> in_literal else in_literal) (d # s))"

definition rstrip :: "string \<Rightarrow> string" where
  "rstrip s = rev (dropWhile (\<lambda>c. c = CHR '' '') (rev s))"

definition comment_reading :: "string \<Rightarrow> EmailUser list \<Rightarrow> CcnetDBRow list option" where
  "comment_reading text rows =
     (case sql_parse (rstrip (cut_comment False text)) of
        Some (SQL_SELECT cols wh lim) \<Rightarrow> Some (select_rows cols wh lim rows)
      | _ \<Rightarrow> None)"

text \<open>
  A directory with two entries behind \<^verbatim>\<open>ldap://dir\<close>, a checksum standing for the
  digest (two passwords with the same characters in another order share it), that engine,
  and a store with one staff and one regular account. \<open>quoted_email\<close> is
  \<^verbatim>\<open>admin@x' --\<close>, \<open>apostrophe_email\<close> is \<^verbatim>\<open>o'x@x\<close>; \<open>quoted_world\<close> also holds
  a staff account under \<open>quoted_email\<close>.
\<close>

definition test_env :: env where
  "test_env =
     \<lparr>SHA1 = (\<lambda>p i. of_nat (sum_list (map of_char p) + i)),
      get_current_time = 1000,
      ldap_initialize_ok = (\<lambda>host. host = ''ldap://dir''),
      ldap_bind_s = (\<lambda>dn pw. (dn = ''cn=svc'' \<and> pw = Some ''svcpw'') \<or>
                               (dn = ''uid=admin'' \<and> pw = Some ''dirpass'') \<or>
                               (dn = ''uid=user'' \<and> pw = Some ''userpw'')),
      ldap_search_s = (\<lambda>b f attrs.
         if b \<noteq> ''dc=x'' then None
         else if f = ''(mail=admin@x)'' then Some [\<lparr>entry_dn = ''uid=admin'', entry_val0 = ''admin@x''\<rparr>]
         else if f = ''(mail=user@x)'' then Some [\<lparr>entry_dn = ''uid=user'', entry_val0 = ''user@x''\<rparr>]
         else Some []),
      sql_other_rows = comment_reading,
      sql_other_exec = (\<lambda>text rows. (- 1, rows))\<rparr>"

definition unreachable_env :: env where
  "unreachable_env = test_env\<lparr>ldap_initialize_ok := (\<lambda>host. False)\<rparr>"

definition ldap_manager :: CcnetUserManager where
  "ldap_manager = \<lparr>use_ldap = True, ldap_host = ''ldap://dir'', base = ''dc=x'',
                    user_dn = Some ''cn=svc'', password = Some ''svcpw'', login_attr = ''mail''\<rparr>"

definition local_manager :: CcnetUserManager where
  "local_manager = \<lparr>use_ldap = False, ldap_host = [], base = [],
                     user_dn = None, password = None, login_attr = ''mail''\<rparr>"

definition admin_row :: EmailUser where
  "admin_row = \<lparr>col_id = 1, col_email = ''admin@x'', col_passwd = hash_password test_env ''secret'',
                 col_is_staff = 1, col_is_active = 1, col_ctime = 100\<rparr>"

definition bob_row :: EmailUser where
  "bob_row = \<lparr>col_id = 2, col_email = ''bob@x'', col_passwd = hash_password test_env ''bobpw'',
               col_is_staff = 0, col_is_active = 1, col_ctime = 200\<rparr>"

definition test_world :: world where
  "test_world = \<lparr>tbl = [admin_row, bob_row], next_id = 3, db_online = True, calls = []\<rparr>"





section \<open>Facts about the statement texts\<close>

lemma is_digit_digit_char: "d < 10 \<Longrightarrow> is_digit (digit_char d)"
  by (simp add: is_digit_def digit_char_def)

lemma val_digit_char: "d < 10 \<Longrightarrow> (of_char (digit_char d) :: nat) - 48 = d"
  by (simp add: digit_char_def)

lemma show_nat_read:
  "list_all is_digit (show_nat n) \<and> show_nat n \<noteq> [] \<and>
   foldl (\<lambda>a c. 10 * a + (of_char c - 48)) 0 (show_nat n) = n"
proof (induction n rule: show_nat.induct)
  case (1 n)
  show ?case
  proof (cases "n < 10")
    case True
    then show ?thesis
      by (subst (1 2 3) show_nat.simps) (simp add: is_digit_digit_char val_digit_char)
  next
    case False
    with 1 have ih: "list_all is_digit (show_nat (n div 10))"
      "foldl (\<lambda>a c. 10 * a + (of_char c - 48)) 0 (show_nat (n div 10)) = n div 10"
      by simp_all
    from False show ?thesis
      by (subst (1 2 3) show_nat.simps) (simp add: ih is_digit_digit_char val_digit_char)
  qed
qed

lemma read_nat_show_nat: "read_nat (show_nat n) = Some n"
  using show_nat_read [of n] by (simp add: read_nat_def)

lemma minus_not_digit: "\<not> is_digit (CHR ''-'')"
  by (simp add: is_digit_def)

lemma hd_show_nat: "hd (show_nat n) \<noteq> CHR ''-''"
proof -
  have "is_digit (hd (show_nat n))"
    using show_nat_read [of n] by (cases "show_nat n") simp_all
  then show ?thesis using minus_not_digit by auto
qed

lemma show_nat_nonempty: "show_nat n \<noteq> []"
  using show_nat_read [of n] by simp

lemma read_int_show_int: "read_int (show_int i) = Some i"
  by (simp add: read_int_def show_int_def read_nat_show_nat hd_show_nat show_nat_nonempty)

lemma show_int_chars: "c \<in> set (show_int i) \<Longrightarrow> is_digit c \<or> c = CHR ''-''"
  using show_nat_read [of "nat i"] show_nat_read [of "nat (- i)"]
  by (auto simp: show_int_def list_all_iff split: if_splits)

lemma apos_notin_show_int: "apos \<notin> set (show_int i)"
  using show_int_chars [of apos i] by (auto simp: is_digit_def)

lemma comma_notin_show_int: "CHR '','' \<notin> set (show_int i)"
  using show_int_chars [of "CHR '',''" i] by (auto simp: is_digit_def)

lemma length_show_nat: "n < 10 ^ k \<Longrightarrow> 0 < k \<Longrightarrow> length (show_nat n) \<le> k"
proof (induction n arbitrary: k rule: show_nat.induct)
  case (1 n)
  show ?case
  proof (cases "n < 10")
    case True
    with 1(3) show ?thesis by (subst show_nat.simps) simp
  next
    case False
    then obtain j where k: "k = Suc j" using 1(3) by (cases k) auto
    from False 1(2) k have "0 < j" by (cases j) auto
    moreover from 1(2) k have "n div 10 < 10 ^ j" by (simp add: less_mult_imp_div_less mult.commute)
    ultimately have "length (show_nat (n div 10)) \<le> j" using 1(1) False by simp
    with False k show ?thesis by (subst show_nat.simps) simp
  qed
qed


lemma length_show_int32: "length (show_int (sint (x :: 32 word))) \<le> 11"
proof -
  have b: "- (2 ^ 31) \<le> sint x" "sint x < 2 ^ 31"
    using sint_ge [of x] sint_lt [of x] by simp_all
  have "nat \<bar>sint x\<bar> < 10 ^ 10" using b by simp
  then have "length (show_nat (nat \<bar>sint x\<bar>)) \<le> 10" by (rule length_show_nat) simp
  then show ?thesis by (auto simp: show_int_def abs_if split: if_splits)
qed

lemma hex_digit_not_apos: "hex_digit n \<noteq> apos"
proof -
  have "hex_digit n \<in> set ''0123456789abcdef''"
    unfolding hex_digit_def by (rule nth_mem) simp
  then show ?thesis by auto
qed

lemma apos_notin_rawdata_to_hex: "apos \<notin> set (rawdata_to_hex rawdata n)"
  using hex_digit_not_apos by (auto simp: rawdata_to_hex_def) metis+

lemma apos_notin_hash: "apos \<notin> set (hash_password E passwd)"
  by (simp add: hash_password_def apos_notin_rawdata_to_hex)

lemma length_rawdata_to_hex: "length (rawdata_to_hex rawdata n) = 2 * n"
  by (simp add: rawdata_to_hex_def length_concat comp_def sum_list_triv)

lemma length_hash_password: "length (hash_password E passwd) = 40"
  by (simp add: hash_password_def length_rawdata_to_hex)

lemma sql_literal_plain:
  "apos \<notin> set lit \<Longrightarrow> sql_literal (lit @ apos # rest) = Some (lit, rest)"
proof -
  assume a: "apos \<notin> set lit"
  have d: "dropWhile (\<lambda>c. c \<noteq> apos) (lit @ apos # rest) = apos # rest"
    using a by (induction lit) auto
  have t: "takeWhile (\<lambda>c. c \<noteq> apos) (lit @ apos # rest) = lit"
    using a by (induction lit) auto
  show ?thesis by (simp add: sql_literal_def d t)
qed

lemma sql_number_show_int:
  "sql_number (show_int i @ apos # rest) = Some (i, rest)"
  by (simp add: sql_number_def sql_literal_plain apos_notin_show_int read_int_show_int)

lemma takeWhile_upto: "x \<notin> set xs \<Longrightarrow> takeWhile (\<lambda>c. c \<noteq> x) (xs @ x # ys) = xs"
  by (induction xs) auto

lemma dropWhile_upto: "x \<notin> set xs \<Longrightarrow> dropWhile (\<lambda>c. c \<noteq> x) (xs @ x # ys) = x # ys"
  by (induction xs) auto

lemma snprintf_fits: "length s < n \<Longrightarrow> snprintf n s = s"
  by (simp add: snprintf_def)

lemma parse_fmt_update:
  "apos \<notin> set h \<Longrightarrow>
   sql_parse (fmt_update h s a i) = Some (SQL_UPDATE h (sint s) (sint a) (WHERE_id (sint i)))"
  by (simp add: fmt_update_def sq_def sql_parse_def parse_update_def sql_literal_plain
        sql_number_show_int)


lemma parse_fmt_delete:
  "apos \<notin> set e \<Longrightarrow> sql_parse (fmt_delete e) = Some (SQL_DELETE (WHERE_email e))"
  by (simp add: fmt_delete_def sq_def sql_parse_def parse_where_def sql_literal_plain)




lemma parse_fmt_select_all:
  "sql_parse fmt_select_all = Some (SQL_SELECT COLS_star WHERE_none None)"
  by (simp add: fmt_select_all_def sql_parse_def parse_select_def
        parse_tail_def parse_limit_def parse_where_def)

lemma parse_fmt_select_count:
  "sql_parse fmt_select_count = Some (SQL_SELECT COLS_count_star WHERE_none None)"
  by (simp add: fmt_select_count_def sql_parse_def parse_select_def
        parse_tail_def parse_limit_def parse_where_def)

lemma parse_fmt_select_all_limit:
  "sql_parse (fmt_select_all_limit start limit) =
     Some (SQL_SELECT COLS_star WHERE_none (Some (sint start, sint limit)))"
  by (simp add: fmt_select_all_limit_def sql_parse_def parse_select_def
        parse_tail_def parse_limit_def takeWhile_upto dropWhile_upto comma_notin_show_int
        read_int_show_int)





lemma length_fmt_update: "length (fmt_update h s a i) < length h + 103"
proof -
  have "length (fmt_update h s a i) =
      length h + length (show_int (sint s)) + length (show_int (sint a)) +
      length (show_int (sint i)) + 69"
    by (simp add: fmt_update_def sq_def)
  then show ?thesis
    using length_show_int32 [of s] length_show_int32 [of a] length_show_int32 [of i] by linarith
qed

lemma length_fmt_select_all_limit: "length (fmt_select_all_limit start limit) < 256"
proof -
  have "length (fmt_select_all_limit start limit) =
      length (show_int (sint start)) + length (show_int (sint limit)) + 32"
    by (simp add: fmt_select_all_limit_def)
  then show ?thesis
    using length_show_int32 [of start] length_show_int32 [of limit] by linarith
qed

section \<open>Facts about the engine, the hasher and the adapter\<close>









lemma ldap_entries_loop_rev:
  "ldap_entries_loop entries ret = rev (map account_of_entry entries) @ ret"
  by (induction entries arbitrary: ret) (simp_all add: account_of_entry_def)

lemma fst_ldap_init_and_bind:
  "fst (ldap_init_and_bind E (ldap_host manager) (user_dn manager) (password manager) w) =
     service_bind_ok E manager"
  by (simp add: ldap_init_and_bind_def service_bind_ok_def Let_def split: option.splits)

lemma fst_ldap_list_users:
  "fst (ldap_list_users E manager uid w) =
     (if service_bind_ok E manager
      then case ldap_search_s E (base manager) (ldap_filter manager uid) [login_attr manager] of
             None \<Rightarrow> []
           | Some entries \<Rightarrow> rev (map account_of_entry entries)
      else [])"
  using fst_ldap_init_and_bind [of E manager w]
  by (auto simp: ldap_list_users_def Let_def ldap_entries_loop_rev
           split: prod.splits bool.splits option.splits)

lemma fst_ldap_count_users:
  "fst (ldap_count_users E manager uid w) =
     (if service_bind_ok E manager
      then case ldap_search_s E (base manager) (ldap_filter manager uid) [login_attr manager] of
             None \<Rightarrow> - 1
           | Some entries \<Rightarrow> int (length entries)
      else - 1)"
  using fst_ldap_init_and_bind [of E manager w]
  by (auto simp: ldap_count_users_def Let_def
           split: prod.splits bool.splits option.splits)

lemma fst_ldap_verify_fail:
  "\<not> service_bind_ok E manager \<or>
   ldap_search_s E (base manager) (ldap_filter manager uid) [login_attr manager] = None \<or>
   ldap_search_s E (base manager) (ldap_filter manager uid) [login_attr manager] = Some [] \<Longrightarrow>
   fst (ldap_verify_user_password E manager uid passwd w) = - 1"
  using fst_ldap_init_and_bind [of E manager w]
  by (auto simp: ldap_verify_user_password_def Let_def
           split: prod.splits bool.splits option.splits list.splits)


lemma update_text_fits:
  "snprintf 512 (fmt_update (hash_password E passwd) is_staff is_active ident) =
     fmt_update (hash_password E passwd) is_staff is_active ident"
  using length_fmt_update [of "hash_password E passwd" is_staff is_active ident]
  by (intro snprintf_fits) (simp add: length_hash_password)

lemma update_query:
  "ccnet_db_query E (snprintf 512 (fmt_update (hash_password E passwd) is_staff is_active ident)) w =
     (let w1 = w\<lparr>calls := calls w @
                   [DB_STMT (fmt_update (hash_password E passwd) is_staff is_active ident)]\<rparr>
      in if db_online w
         then (0, w1\<lparr>tbl := map (\<lambda>r. if col_id r = sint ident
                                      then r\<lparr>col_passwd := hash_password E passwd,
                                             col_is_staff := sint is_staff,
                                             col_is_active := sint is_active\<rparr>
                                      else r) (tbl w)\<rparr>)
         else (- 1, w1))"
  by (simp add: update_text_fits ccnet_db_query_def emit_def Let_def
        parse_fmt_update [OF apos_notin_hash])





lemma foreach_get_emailusers_cb:
  "foreach_row get_emailusers_cb (map (select_columns COLS_star) rs) n acc =
     (n + int (length rs), rev (map account_of_row rs) @ acc)"
  by (induction rs arbitrary: n acc)
     (simp_all add: get_emailusers_cb_def account_of_row_def ccnet_db_row_get_column_int_def
        ccnet_db_row_get_column_int64_def ccnet_db_row_get_column_text_def)

lemma list_text:
  "sql_parse (if start = - 1 \<and> limit = - 1 then snprintf 256 fmt_select_all
              else snprintf 256 (fmt_select_all_limit start limit)) =
     Some (SQL_SELECT COLS_star WHERE_none
            (if start = - 1 \<and> limit = - 1 then None else Some (sint start, sint limit)))"
proof -
  have "snprintf 256 fmt_select_all = fmt_select_all"
    by (rule snprintf_fits) (simp add: fmt_select_all_def)
  moreover have "snprintf 256 (fmt_select_all_limit start limit) = fmt_select_all_limit start limit"
    by (rule snprintf_fits) (rule length_fmt_select_all_limit)
  ultimately show ?thesis
    by (simp add: parse_fmt_select_all parse_fmt_select_all_limit)
qed

lemma fst_get_emailusers:
  assumes "\<not> use_ldap manager" "db_online w"
  shows "fst (ccnet_user_manager_get_emailusers E manager start limit w) =
           map account_of_row
             (limit_rows (if start = - 1 \<and> limit = - 1 then None
                          else Some (sint start, sint limit)) (tbl w))"
  using assms
  by (simp add: ccnet_user_manager_get_emailusers_def ccnet_db_foreach_selected_row_def
        result_set_def select_rows_def list_text
        emit_def Let_def foreach_get_emailusers_cb
        del: select_columns.simps limit_rows.simps)

lemma sublist_limit_rows: "sublist (limit_rows lim rs) rs"
proof (cases lim)
  case None
  then show ?thesis by simp
next
  case (Some p)
  obtain s l where p: "p = (s, l)" by (cases p)
  have "sublist (take (nat l) (drop (nat s) rs)) (drop (nat s) rs)"
    by (rule prefix_imp_sublist) (rule take_is_prefix)
  moreover have "sublist (drop (nat s) rs) rs"
    by (rule suffix_imp_sublist) (rule suffix_drop)
  ultimately show ?thesis using Some p by (auto intro: sublist_order.order_trans)
qed


lemma test_service_bind:
  "service_bind_ok test_env ldap_manager" "\<not> service_bind_ok unreachable_env ldap_manager"
  by (simp_all add: service_bind_ok_def test_env_def unreachable_env_def ldap_manager_def)

lemma test_no_match:
  "ldap_search_s test_env (base ldap_manager) (ldap_filter ldap_manager ''nobody@x'')
     [login_attr ldap_manager] = Some []"
  by (simp add: test_env_def ldap_manager_def ldap_filter_def)

section \<open>The properties\<close>







text \<open>
  C3. The claim that every directory operation tells a bind or search failure apart from
  a successful search without a match fails for \<^verbatim>\<open>ldap_list_users\<close> and
  \<^verbatim>\<open>ldap_verify_user_password\<close>: with an unreachable directory and with a reachable
  one that finds no entry they return the same value.
\<close>

theorem directory_failure_indistinguishable:
  "\<not> ldap_initialize_ok unreachable_env (ldap_host ldap_manager)
   \<and> ldap_initialize_ok test_env (ldap_host ldap_manager)
   \<and> ldap_bind_s test_env ''cn=svc'' (Some ''svcpw'')
   \<and> ldap_search_s test_env ''dc=x'' ''(mail=nobody@x)'' [''mail''] = Some []
   \<and> fst (ldap_list_users unreachable_env ldap_manager ''nobody@x'' test_world) = []
   \<and> fst (ldap_list_users test_env ldap_manager ''nobody@x'' test_world) = []
   \<and> fst (ldap_verify_user_password unreachable_env ldap_manager ''nobody@x'' ''pw'' test_world) = - 1
   \<and> fst (ldap_verify_user_password test_env ldap_manager ''nobody@x'' ''pw'' test_world) = - 1"
  by (simp add: ldap_list_users_def ldap_verify_user_password_def ldap_init_and_bind_def
        ldap_filter_def emit_def Let_def test_env_def unreachable_env_def ldap_manager_def)

text \<open>
  C3, as the code has it. On a bind or search failure \<^verbatim>\<open>ldap_count_users\<close> returns
  \<open>-1\<close>, \<^verbatim>\<open>ldap_list_users\<close> the empty list and
  \<^verbatim>\<open>ldap_verify_user_password\<close> \<open>-1\<close>. On a successful search the count is the
  number of entries, never negative, so the count alone tells a failure from a search
  without a match; the list is empty and the verdict \<open>-1\<close> there too.
\<close>

theorem directory_failure_results:
  "(\<not> service_bind_ok E manager \<or>
      ldap_search_s E (base manager) (ldap_filter manager uid) [login_attr manager] = None
     \<longrightarrow> fst (ldap_count_users E manager uid w) = - 1
       \<and> fst (ldap_list_users E manager uid w) = []
       \<and> fst (ldap_verify_user_password E manager uid passwd w) = - 1)
   \<and> (service_bind_ok E manager \<and>
      ldap_search_s E (base manager) (ldap_filter manager uid) [login_attr manager] = Some entries
     \<longrightarrow> fst (ldap_count_users E manager uid w) = int (length entries)
       \<and> 0 \<le> fst (ldap_count_users E manager uid w)
       \<and> (entries = [] \<longrightarrow> fst (ldap_list_users E manager uid w) = []
                           \<and> fst (ldap_verify_user_password E manager uid passwd w) = - 1))"
  using fst_ldap_verify_fail [of E manager uid passwd w]
  by (auto simp: fst_ldap_count_users fst_ldap_list_users)

theorem directory_failure_results_witness:
  "\<not> service_bind_ok unreachable_env ldap_manager
   \<and> fst (ldap_count_users unreachable_env ldap_manager ''nobody@x'' test_world) = - 1
   \<and> fst (ldap_list_users unreachable_env ldap_manager ''nobody@x'' test_world) = []
   \<and> fst (ldap_verify_user_password unreachable_env ldap_manager ''nobody@x'' ''pw'' test_world) = - 1
   \<and> service_bind_ok test_env ldap_manager
   \<and> fst (ldap_count_users test_env ldap_manager ''nobody@x'' test_world) = 0
   \<and> fst (ldap_list_users test_env ldap_manager ''nobody@x'' test_world) = []
   \<and> fst (ldap_verify_user_password test_env ldap_manager ''nobody@x'' ''pw'' test_world) = - 1"
  using directory_failure_results [of unreachable_env ldap_manager "''nobody@x''" test_world "''pw''" "[]"]
    directory_failure_results [of test_env ldap_manager "''nobody@x''" test_world "''pw''" "[]"]
  by (simp add: test_service_bind test_no_match)

text \<open>
  C4. The claim that, with a directory configured, \<open>update\<close> is applied exactly when
  the stored row is staff fails both ways: an update of the stored staff row 1 that passes
  \<^verbatim>\<open>is_staff = 0\<close> leaves the store untouched, and an update of the regular row 2
  that passes \<^verbatim>\<open>is_staff = 1\<close> rewrites it.
\<close>

theorem update_of_stored_staff_counterexample:
  "use_ldap ldap_manager
   \<and> tbl test_world = [admin_row, bob_row]
   \<and> col_id admin_row = 1 \<and> col_is_staff admin_row \<noteq> 0
   \<and> col_id bob_row = 2 \<and> col_is_staff bob_row = 0
   \<and> ccnet_user_manager_update_emailuser test_env ldap_manager 1 ''another'' 0 1 test_world =
       (0, test_world)
   \<and> tbl (snd (ccnet_user_manager_update_emailuser test_env ldap_manager 2 ''another'' 1 1 test_world)) =
       [admin_row, bob_row\<lparr>col_passwd := hash_password test_env ''another'', col_is_staff := 1\<rparr>]
   \<and> bob_row\<lparr>col_passwd := hash_password test_env ''another'', col_is_staff := 1\<rparr> \<noteq> bob_row"
  by (simp add: ccnet_user_manager_update_emailuser_def update_query Let_def
        ldap_manager_def test_world_def admin_row_def bob_row_def)

text \<open>
  C4, as the code has it. With a directory configured and the argument
  \<^verbatim>\<open>is_staff\<close> 0, \<open>update\<close> returns 0 and touches nothing. With no directory, or
  with a non-zero \<^verbatim>\<open>is_staff\<close> argument, the statement is executed: on a store that
  answers, the rows with the given id get the new digest and flags.
\<close>

theorem update_gate:
  "(use_ldap manager \<and> is_staff = 0 \<longrightarrow>
      ccnet_user_manager_update_emailuser E manager ident passwd is_staff is_active w = (0, w))
   \<and> ((\<not> use_ldap manager \<or> is_staff \<noteq> 0) \<and> db_online w \<longrightarrow>
      fst (ccnet_user_manager_update_emailuser E manager ident passwd is_staff is_active w) = 0
      \<and> tbl (snd (ccnet_user_manager_update_emailuser E manager ident passwd is_staff is_active w)) =
          map (\<lambda>r. if col_id r = sint ident
                   then r\<lparr>col_passwd := hash_password E passwd, col_is_staff := sint is_staff,
                          col_is_active := sint is_active\<rparr>
                   else r) (tbl w))"
  by (simp add: ccnet_user_manager_update_emailuser_def update_query Let_def)

theorem update_gate_witness:
  "use_ldap ldap_manager
   \<and> ccnet_user_manager_update_emailuser test_env ldap_manager 1 ''another'' 0 1 test_world =
       (0, test_world)
   \<and> db_online test_world
   \<and> fst (ccnet_user_manager_update_emailuser test_env ldap_manager 2 ''another'' 1 1 test_world) = 0
   \<and> tbl (snd (ccnet_user_manager_update_emailuser test_env ldap_manager 2 ''another'' 1 1 test_world)) =
       [admin_row, bob_row\<lparr>col_passwd := hash_password test_env ''another'', col_is_staff := 1\<rparr>]
   \<and> \<not> use_ldap local_manager
   \<and> tbl (snd (ccnet_user_manager_update_emailuser test_env local_manager 2 ''another'' 0 0 test_world)) =
       [admin_row, bob_row\<lparr>col_passwd := hash_password test_env ''another'', col_is_active := 0\<rparr>]"
  using update_gate [of ldap_manager 0 test_env 1 "''another''" 1 test_world]
    update_gate [of ldap_manager 1 test_env 2 "''another''" 1 test_world]
    update_gate [of local_manager 0 test_env 2 "''another''" 0 test_world]
  by (simp add: ldap_manager_def local_manager_def test_world_def admin_row_def bob_row_def)

text \<open>
  C5. With a directory configured, \<open>add\<close> and \<open>remove\<close> return 0 and leave the
  state as it was: the table is unchanged and no statement reaches the engine.
\<close>

theorem add_remove_with_directory:
  assumes "use_ldap manager"
  shows "ccnet_user_manager_add_emailuser E manager email passwd is_staff is_active w = (0, w)
       \<and> ccnet_user_manager_remove_emailuser E manager email w = (0, w)"
  using assms
  by (simp add: ccnet_user_manager_add_emailuser_def ccnet_user_manager_remove_emailuser_def)

theorem add_remove_with_directory_witness:
  "use_ldap ldap_manager
   \<and> ccnet_user_manager_add_emailuser test_env ldap_manager ''carol@x'' ''carolpw'' 0 1 test_world =
       (0, test_world)
   \<and> ccnet_user_manager_remove_emailuser test_env ldap_manager ''bob@x'' test_world = (0, test_world)"
proof -
  have h: "use_ldap ldap_manager" by (simp add: ldap_manager_def)
  show ?thesis
    using add_remove_with_directory [OF h, of test_env "''carol@x''" "''carolpw''" 0 1 test_world]
      add_remove_with_directory [OF h, of test_env "''bob@x''" "''carolpw''" 0 1 test_world]
    by (simp add: h)
qed




text \<open>
  C7. \<open>update\<close> keeps the table's rows in place, each with its id, email and ctime;
  a row with another id is unchanged altogether. When the statement is executed, the rows
  with the given id carry the new digest, staff flag and active flag.
\<close>

theorem update_frame:
  "list_all2 (\<lambda>old new. col_id new = col_id old \<and> col_email new = col_email old \<and>
                         col_ctime new = col_ctime old \<and> (col_id old \<noteq> sint ident \<longrightarrow> new = old))
     (tbl w)
     (tbl (snd (ccnet_user_manager_update_emailuser E manager ident passwd is_staff is_active w)))
   \<and> ((\<not> use_ldap manager \<or> is_staff \<noteq> 0) \<and> db_online w \<longrightarrow>
      list_all2 (\<lambda>old new. col_id old = sint ident \<longrightarrow>
                   col_passwd new = hash_password E passwd \<and> col_is_staff new = sint is_staff \<and>
                   col_is_active new = sint is_active)
        (tbl w)
        (tbl (snd (ccnet_user_manager_update_emailuser E manager ident passwd is_staff is_active w))))"
  by (simp add: ccnet_user_manager_update_emailuser_def update_query Let_def
        list_all2_map2 list_all2_same)

theorem update_frame_witness:
  "tbl test_world = [admin_row, bob_row]
   \<and> \<not> use_ldap local_manager \<and> db_online test_world
   \<and> tbl (snd (ccnet_user_manager_update_emailuser test_env local_manager 2 ''another'' 1 0 test_world)) =
       [admin_row,
        \<lparr>col_id = 2, col_email = ''bob@x'', col_passwd = hash_password test_env ''another'',
         col_is_staff = 1, col_is_active = 0, col_ctime = 200\<rparr>]"
proof -
  have h: "tbl test_world = [admin_row, bob_row]" "\<not> use_ldap local_manager" "db_online test_world"
    by (simp_all add: test_world_def local_manager_def)
  have "list_all2 (\<lambda>old new. col_id old = 2 \<longrightarrow>
                   col_passwd new = hash_password test_env ''another'' \<and> col_is_staff new = 1 \<and>
                   col_is_active new = 0)
        (tbl test_world)
        (tbl (snd (ccnet_user_manager_update_emailuser test_env local_manager 2 ''another'' 1 0 test_world)))"
    using update_frame [of 2 test_world test_env local_manager "''another''" 1 0] h by simp
  moreover have "list_all2 (\<lambda>old new. col_id new = col_id old \<and> col_email new = col_email old \<and>
                         col_ctime new = col_ctime old \<and> (col_id old \<noteq> 2 \<longrightarrow> new = old))
     (tbl test_world)
     (tbl (snd (ccnet_user_manager_update_emailuser test_env local_manager 2 ''another'' 1 0 test_world)))"
    using update_frame [of 2 test_world test_env local_manager "''another''" 1 0] by simp
  ultimately show ?thesis
    by (auto simp: h list_all2_Cons1 admin_row_def bob_row_def)
qed

text \<open>
  C8. With no directory and a store that answers, \<open>list(start, limit)\<close> returns the
  accounts of all rows, in storage order, exactly when both arguments are \<open>-1\<close>, and
  then as many as \<open>count()\<close> reports; with any other arguments it returns the page
  that skips \<open>start\<close> rows and holds at most \<open>limit\<close> rows (a negative \<open>start\<close>
  skips none, a negative \<open>limit\<close> bounds nothing); \<open>list(0, 2)\<close> has at most two
  elements; and whatever the arguments, the result is a run of consecutive rows of the
  table.
\<close>

theorem list_without_directory:
  assumes "\<not> use_ldap manager" and "db_online w"
  shows "fst (ccnet_user_manager_get_emailusers E manager start limit w) =
       map account_of_row
         (if start = - 1 \<and> limit = - 1 then tbl w
          else if sint limit < 0 then drop (nat (sint start)) (tbl w)
          else take (nat (sint limit)) (drop (nat (sint start)) (tbl w)))
   \<and> fst (ccnet_user_manager_get_emailusers E manager (- 1) (- 1) w) = map account_of_row (tbl w)
   \<and> fst (ccnet_user_manager_count_emailusers E manager w) =
       of_nat (length (fst (ccnet_user_manager_get_emailusers E manager (- 1) (- 1) w)))
   \<and> length (fst (ccnet_user_manager_get_emailusers E manager 0 2 w)) \<le> 2
   \<and> sublist (fst (ccnet_user_manager_get_emailusers E manager start limit w))
       (map account_of_row (tbl w))"
proof -
  have page: "fst (ccnet_user_manager_get_emailusers E manager start limit w) =
       map account_of_row
         (if start = - 1 \<and> limit = - 1 then tbl w
          else if sint limit < 0 then drop (nat (sint start)) (tbl w)
          else take (nat (sint limit)) (drop (nat (sint start)) (tbl w)))"
    by (simp add: fst_get_emailusers [OF assms])
  have all: "fst (ccnet_user_manager_get_emailusers E manager (- 1) (- 1) w) =
      map account_of_row (tbl w)"
    by (simp add: fst_get_emailusers [OF assms])
  have "snprintf 512 fmt_select_count = fmt_select_count"
    by (rule snprintf_fits) (simp add: fmt_select_count_def)
  then have cnt: "fst (ccnet_user_manager_count_emailusers E manager w) = of_nat (length (tbl w))"
    using assms
    by (simp add: ccnet_user_manager_count_emailusers_def ccnet_db_get_int64_def result_set_def
          select_rows_def parse_fmt_select_count emit_def Let_def)
  have two: "length (fst (ccnet_user_manager_get_emailusers E manager 0 2 w)) \<le> 2"
    by (simp add: fst_get_emailusers [OF assms])
  have sub: "sublist (fst (ccnet_user_manager_get_emailusers E manager start limit w))
       (map account_of_row (tbl w))"
    unfolding fst_get_emailusers [OF assms] by (rule map_mono_sublist) (rule sublist_limit_rows)
  from page all cnt two sub show ?thesis by simp
qed

theorem list_without_directory_witness:
  "\<not> use_ldap local_manager \<and> db_online test_world
   \<and> fst (ccnet_user_manager_get_emailusers test_env local_manager (- 1) (- 1) test_world) =
       [\<lparr>eu_id = 1, eu_email = ''admin@x'', eu_is_staff = 1, eu_is_active = 1, eu_ctime = 100\<rparr>,
        \<lparr>eu_id = 2, eu_email = ''bob@x'', eu_is_staff = 0, eu_is_active = 1, eu_ctime = 200\<rparr>]
   \<and> fst (ccnet_user_manager_count_emailusers test_env local_manager test_world) = 2
   \<and> fst (ccnet_user_manager_get_emailusers test_env local_manager 1 1 test_world) =
       [\<lparr>eu_id = 2, eu_email = ''bob@x'', eu_is_staff = 0, eu_is_active = 1, eu_ctime = 200\<rparr>]
   \<and> fst (ccnet_user_manager_get_emailusers test_env local_manager (- 1) 1 test_world) =
       [\<lparr>eu_id = 1, eu_email = ''admin@x'', eu_is_staff = 1, eu_is_active = 1, eu_ctime = 100\<rparr>]"
proof -
  have h1: "\<not> use_ldap local_manager" by (simp add: local_manager_def)
  have h2: "db_online test_world" by (simp add: test_world_def)
  note t = list_without_directory [OF h1 h2, of test_env 1 1]
  note t' = list_without_directory [OF h1 h2, of test_env "- 1" 1]
  have a: "fst (ccnet_user_manager_get_emailusers test_env local_manager (- 1) (- 1) test_world) =
             map account_of_row (tbl test_world)"
    using t by blast
  have b: "fst (ccnet_user_manager_count_emailusers test_env local_manager test_world) =
             of_nat (length (map account_of_row (tbl test_world)))"
    using t unfolding a by blast
  have c: "fst (ccnet_user_manager_get_emailusers test_env local_manager 1 1 test_world) =
             map account_of_row (take (nat 1) (drop (nat 1) (tbl test_world)))"
    using t by simp
  have c': "fst (ccnet_user_manager_get_emailusers test_env local_manager (- 1) 1 test_world) =
             map account_of_row (take (nat 1) (drop (nat (- 1)) (tbl test_world)))"
    using t' by simp
  show ?thesis
    unfolding a b c c'
    by (simp add: h1 h2 test_world_def admin_row_def bob_row_def account_of_row_def)
qed

text \<open>
  C9. With a directory configured, \<open>getById\<close> returns \<^verbatim>\<open>NULL\<close> for every id and
  leaves the state as it was: neither the store nor the directory is called.
\<close>

theorem get_by_id_with_directory:
  assumes "use_ldap manager"
  shows "ccnet_user_manager_get_emailuser_by_id E manager ident w = (None, w)"
  using assms by (simp add: ccnet_user_manager_get_emailuser_by_id_def)

theorem get_by_id_with_directory_witness:
  "use_ldap ldap_manager
   \<and> ccnet_user_manager_get_emailuser_by_id test_env ldap_manager 1 test_world = (None, test_world)"
proof -
  have h: "use_ldap ldap_manager" by (simp add: ldap_manager_def)
  show ?thesis using get_by_id_with_directory [OF h, of test_env 1 test_world] by (simp add: h)
qed




end
